theory Spec2Isabelle
  imports Main "HOL-Library.Word"
begin

section \<open>Build configuration and failures\<close>

text \<open>
  The translation unit \<^verbatim>\<open>sycl_ocl_gpu_kernel.cpp\<close> is compiled under one value of the
  preprocessor symbol \<^verbatim>\<open>MKLDNN_SYCL_MEMORY_API\<close>, and with or without \<^verbatim>\<open>NDEBUG\<close>
  (which turns every \<^verbatim>\<open>assert\<close> into a no-op). Both are inputs of the model.
\<close>

datatype memory_api =
    MKLDNN_SYCL_MEMORY_API_BUFFER
  | MKLDNN_SYCL_MEMORY_API_USM
  | MKLDNN_SYCL_MEMORY_API_VPTR

record build =
  MKLDNN_SYCL_MEMORY_API :: memory_api
  NDEBUG :: bool

text \<open>
  A call either returns normally or leaves through one of the non-returning exits the
  source has: a failed \<^verbatim>\<open>assert\<close> (the process aborts), a thrown
  \<^verbatim>\<open>std::runtime_error\<close>, or an exception of the SYCL runtime.
\<close>

datatype failure =
    Assertion_failed string
  | Runtime_error string
  | Sycl_exception

datatype status =
    success
  | out_of_memory
  | invalid_arguments
  | unimplemented
  | runtime_error

text \<open>
  An exit is fatal when nothing can resume the program after it: a failed assertion
  aborts the process, while a thrown exception can be caught by a caller.
\<close>

fun fatal :: "failure \<Rightarrow> bool" where
  "fatal (Assertion_failed _) = True"
| "fatal (Runtime_error _) = False"
| "fatal Sycl_exception = False"

text \<open>\<^verbatim>\<open>assert(cond)\<close> with the message the source writes in the condition.\<close>

definition assert_that :: "build \<Rightarrow> bool \<Rightarrow> string \<Rightarrow> failure + unit" where
  "assert_that b cond msg =
     (if NDEBUG b \<or> cond then Inr () else Inl (Assertion_failed msg))"

section \<open>The command-group handler\<close>

type_synonym buffer_u8 = nat \<comment> \<open>identity of the memory object behind a SYCL buffer\<close>

datatype access_mode = Read | Write | Read_write

datatype arg_binding =
    Accessor access_mode buffer_u8
  | Nullptr
  | UInt8 "8 word"
  | UInt16 "16 word"
  | UInt32 "32 word"
  | UInt64 "64 word"

datatype sycl_exec_range =
    Sycl_range "nat list"
  | Sycl_nd_range "nat list" "nat list"

record sycl_kernel =
  kernel_handle :: nat
  kernel_context :: nat

text \<open>
  A \<^verbatim>\<open>cl::sycl::handler\<close> is the sequence of calls made on it, oldest first:
  \<^verbatim>\<open>set_arg(index, value)\<close> and \<^verbatim>\<open>parallel_for(range, kernel)\<close>.
\<close>

datatype cgh_call =
    Set_arg nat arg_binding
  | Parallel_for sycl_exec_range sycl_kernel

type_synonym handler = "cgh_call list"

definition set_arg :: "handler \<Rightarrow> nat \<Rightarrow> arg_binding \<Rightarrow> handler" where
  "set_arg cgh index v = cgh @ [Set_arg index v]"

definition handler_parallel_for :: "handler \<Rightarrow> sycl_exec_range \<Rightarrow> sycl_kernel \<Rightarrow> handler" where
  "handler_parallel_for cgh r k = cgh @ [Parallel_for r k]"

section \<open>Scalar arguments\<close>

text \<open>
  \<^verbatim>\<open>void *value\<close> is modelled by the bytes found at that address: \<open>value k\<close> is the
  byte at offset \<open>k\<close>. \<^verbatim>\<open>*static_cast<uintN_t *>(value)\<close> reads the first N/8 bytes; the
  host is little-endian, so the byte at offset 0 is the least significant one
  (\<^const>\<open>word_rcat\<close> takes the most significant byte first).
\<close>

type_synonym raw_bytes = "nat \<Rightarrow> 8 word"

definition load_uint8 :: "raw_bytes \<Rightarrow> 8 word" where
  "load_uint8 p = p 0"

definition load_uint16 :: "raw_bytes \<Rightarrow> 16 word" where
  "load_uint16 p = word_rcat [p 1, p 0]"

definition load_uint32 :: "raw_bytes \<Rightarrow> 32 word" where
  "load_uint32 p = word_rcat [p 3, p 2, p 1, p 0]"

definition load_uint64 :: "raw_bytes \<Rightarrow> 64 word" where
  "load_uint64 p = word_rcat [p 7, p 6, p 5, p 4, p 3, p 2, p 1, p 0]"

definition set_scalar_arg :: "build \<Rightarrow> handler \<Rightarrow> nat \<Rightarrow> nat \<Rightarrow> raw_bytes \<Rightarrow> failure + handler" where
  "set_scalar_arg b cgh index size' val =
     (if size' = 1 then Inr (set_arg cgh index (UInt8 (load_uint8 val)))
      else if size' = 2 then Inr (set_arg cgh index (UInt16 (load_uint16 val)))
      else if size' = 4 then Inr (set_arg cgh index (UInt32 (load_uint32 val)))
      else if size' = 8 then Inr (set_arg cgh index (UInt64 (load_uint64 val)))
      else (case assert_that b False ''Please add another case'' of
              Inl e \<Rightarrow> Inl e
            | Inr _ \<Rightarrow> Inl (Runtime_error ''Internal error'')))"

section \<open>Kernel arguments and ranges\<close>

text \<open>
  Modelled from the spec: the classes \<^verbatim>\<open>memory_storage_t\<close> and
  \<^verbatim>\<open>sycl_memory_storage_t\<close> are declared in headers that are not among the sources; the
  model keeps what \<^verbatim>\<open>parallel_for\<close> reads from them. A \<^verbatim>\<open>sycl_memory_storage_t\<close>
  answers \<^verbatim>\<open>buffer()\<close> in a buffer build and \<^verbatim>\<open>vptr()\<close> in a virtual-pointer build.
  A \<^verbatim>\<open>memory_storage_t\<close> converts to \<^verbatim>\<open>false\<close> when it is the null storage
  (\<open>None\<close>) and otherwise gives its implementation through \<^verbatim>\<open>impl()\<close>.
\<close>

datatype vptr = Vptr buffer_u8

record sycl_memory_storage =
  buffer :: buffer_u8
  vptr :: vptr

type_synonym memory_storage = "sycl_memory_storage option"

text \<open>
  Modelled from the spec: \<^verbatim>\<open>mkldnn::get_sycl_buffer\<close> is declared in the public header,
  not in this translation unit. A virtual pointer stands for the buffer registered for
  it, and the lookup returns that buffer.
\<close>

fun get_sycl_buffer :: "vptr \<Rightarrow> buffer_u8" where
  "get_sycl_buffer (Vptr buf) = buf"

text \<open>
  Modelled from the spec: \<^verbatim>\<open>compute::kernel_arg_t\<close> and
  \<^verbatim>\<open>compute::kernel_arg_list_t\<close> are declared outside the sources. A kernel argument is a
  tagged union: either global (its \<^verbatim>\<open>value()\<close> points at a \<^verbatim>\<open>memory_storage_t\<close>) or a
  scalar (its \<^verbatim>\<open>value()\<close> points at \<^verbatim>\<open>size()\<close> raw bytes). The list is ordered, and the
  index of an argument is its slot.
\<close>

datatype kernel_arg =
    Global memory_storage
  | Scalar nat raw_bytes

fun is_global :: "kernel_arg \<Rightarrow> bool" where
  "is_global (Global _) = True"
| "is_global (Scalar _ _) = False"

type_synonym kernel_arg_list = "kernel_arg list"

definition nargs :: "kernel_arg_list \<Rightarrow> nat" where
  "nargs arg_list = length arg_list"

text \<open>
  Modelled from the spec: \<^verbatim>\<open>compute::nd_range_t\<close> is declared outside the sources. A
  range has a global extent and may have a local one (\<^verbatim>\<open>local_range()\<close> is a null pointer
  when it has none); the zero sentinel is a range with no work, one whose global extent
  has a zero dimension.
\<close>

record nd_range =
  global_range :: "nat list"
  local_range :: "nat list option"

definition is_zero :: "nd_range \<Rightarrow> bool" where
  "is_zero rng = list_ex (\<lambda>d. d = 0) (global_range rng)"

text \<open>
  Modelled from the spec: \<^verbatim>\<open>to_sycl_range\<close> and \<^verbatim>\<open>to_sycl_nd_range\<close> come from
  \<^verbatim>\<open>sycl_utils.hpp\<close>, which is not among the sources. The first gives the flat,
  global-only execution range, the second the grouped one over the global and the local
  extent.
\<close>

definition to_sycl_range :: "nd_range \<Rightarrow> sycl_exec_range" where
  "to_sycl_range rng = Sycl_range (global_range rng)"

definition to_sycl_nd_range :: "nd_range \<Rightarrow> sycl_exec_range" where
  "to_sycl_nd_range rng =
     Sycl_nd_range (global_range rng)
       (case local_range rng of None \<Rightarrow> [] | Some l \<Rightarrow> l)"

section \<open>Streams, engines and the compiled kernel\<close>

text \<open>
  Modelled from the spec: \<^verbatim>\<open>sycl_stream_t\<close>, \<^verbatim>\<open>sycl_gpu_engine_t\<close> and the header of
  \<^verbatim>\<open>sycl_ocl_gpu_kernel_t\<close> are not among the sources. The stream owns the queue and
  refers to its engine; the queue is the list of command groups submitted so far, oldest
  first. The engine gives the context; \<open>context_kernels\<close> lists the native kernel
  handles the runtime accepts in that context. The compiled kernel owns a native kernel
  handle.
\<close>

record sycl_context =
  context_id :: nat
  context_kernels :: "nat list"

record sycl_gpu_engine =
  engine_context :: sycl_context

record sycl_stream =
  engine :: sycl_gpu_engine
  queue :: "handler list"

record sycl_ocl_gpu_kernel =
  ocl_kernel :: "nat option" \<comment> \<open>the member \<^verbatim>\<open>ocl_kernel_\<close>, a \<^verbatim>\<open>cl_kernel\<close>; \<open>None\<close> is the null handle\<close>

text \<open>
  The constructor \<^verbatim>\<open>cl::sycl::kernel(cl_kernel, context)\<close> of the SYCL runtime: it
  throws when the native handle is not a kernel of the context.
\<close>

definition new_sycl_kernel :: "nat option \<Rightarrow> sycl_context \<Rightarrow> failure + sycl_kernel" where
  "new_sycl_kernel h ctx =
     (case h of
        None \<Rightarrow> Inl Sycl_exception
      | Some k \<Rightarrow>
          if k \<in> set (context_kernels ctx)
          then Inr \<lparr>kernel_handle = k, kernel_context = context_id ctx\<rparr>
          else Inl Sycl_exception)"

section \<open>The destructor\<close>

text \<open>
  The OpenCL runtime is observed through the calls made to \<^verbatim>\<open>clReleaseKernel\<close>:
  the list of released handles, oldest first. The macro \<^verbatim>\<open>OCL_CHECK_V\<close> only inspects
  the return code of the call it wraps. The destructor reads the member and leaves it as
  it is: the release does not clear the handle.
\<close>

type_synonym ocl_runtime = "nat list"

definition clReleaseKernel :: "nat \<Rightarrow> ocl_runtime \<Rightarrow> ocl_runtime" where
  "clReleaseKernel k rt = rt @ [k]"

definition destroy_sycl_ocl_gpu_kernel :: "sycl_ocl_gpu_kernel \<Rightarrow> ocl_runtime \<Rightarrow> ocl_runtime" where
  "destroy_sycl_ocl_gpu_kernel this rt =
     (case ocl_kernel this of
        None \<Rightarrow> rt
      | Some k \<Rightarrow> clReleaseKernel k rt)"

section \<open>Dispatch\<close>

text \<open>The body of the argument loop, for the argument at index \<open>i\<close>.\<close>

definition bind_arg :: "build \<Rightarrow> handler \<Rightarrow> nat \<Rightarrow> kernel_arg \<Rightarrow> failure + handler" where
  "bind_arg b cgh i arg =
     (case arg of
        Global mem_storage \<Rightarrow>
          (case mem_storage of
             Some sycl_mem_storage \<Rightarrow>
               (case MKLDNN_SYCL_MEMORY_API b of
                  MKLDNN_SYCL_MEMORY_API_BUFFER \<Rightarrow>
                    Inr (set_arg cgh i (Accessor Read_write (buffer sycl_mem_storage)))
                | MKLDNN_SYCL_MEMORY_API_USM \<Rightarrow>
                    (case assert_that b False ''false'' of
                       Inl e \<Rightarrow> Inl e
                     | Inr _ \<Rightarrow> Inr cgh)
                | MKLDNN_SYCL_MEMORY_API_VPTR \<Rightarrow>
                    Inr (set_arg cgh i
                           (Accessor Read_write (get_sycl_buffer (vptr sycl_mem_storage)))))
           | None \<Rightarrow> Inr (set_arg cgh i Nullptr))
      | Scalar size' val \<Rightarrow> set_scalar_arg b cgh i size' val)"

text \<open>
  \<^verbatim>\<open>for (int i = 0; i < arg_list.nargs(); ++i)\<close>, from index \<open>i\<close> on. An exit of
  the body ends the loop.
\<close>

function bind_args :: "build \<Rightarrow> kernel_arg_list \<Rightarrow> nat \<Rightarrow> handler \<Rightarrow> failure + handler" where
  "bind_args b arg_list i cgh =
     (if i < nargs arg_list
      then (case bind_arg b cgh i (arg_list ! i) of
              Inl e \<Rightarrow> Inl e
            | Inr cgh' \<Rightarrow> bind_args b arg_list (Suc i) cgh')
      else Inr cgh)"
  by pat_completeness auto
termination
  by (relation "measure (\<lambda>(b, arg_list, i, cgh). nargs arg_list - i)") auto

declare bind_args.simps [simp del]

text \<open>The lambda handed to \<^verbatim>\<open>queue.submit\<close>.\<close>

definition command_group ::
  "build \<Rightarrow> sycl_kernel \<Rightarrow> nd_range \<Rightarrow> kernel_arg_list \<Rightarrow> handler \<Rightarrow> failure + handler" where
  "command_group b k rng arg_list cgh =
     (case bind_args b arg_list 0 cgh of
        Inl e \<Rightarrow> Inl e
      | Inr cgh' \<Rightarrow>
          if local_range rng \<noteq> None
          then Inr (handler_parallel_for cgh' (to_sycl_nd_range rng) k)
          else Inr (handler_parallel_for cgh' (to_sycl_range rng) k))"

text \<open>
  \<^verbatim>\<open>queue.submit\<close> runs the lambda on a fresh handler and enqueues the command group
  when the lambda returns; an exit of the lambda leaves the queue as it was.
\<close>

definition submit :: "handler list \<Rightarrow> (handler \<Rightarrow> failure + handler) \<Rightarrow> failure + handler list" where
  "submit q cgf =
     (case cgf [] of
        Inl e \<Rightarrow> Inl e
      | Inr cgh \<Rightarrow> Inr (q @ [cgh]))"

text \<open>
  \<^verbatim>\<open>sycl_ocl_gpu_kernel_t::parallel_for\<close>. The result is the status returned, or the
  exit taken, and the stream afterwards.
\<close>

definition parallel_for ::
  "build \<Rightarrow> sycl_ocl_gpu_kernel \<Rightarrow> sycl_stream \<Rightarrow> nd_range \<Rightarrow> kernel_arg_list
     \<Rightarrow> (failure + status) \<times> sycl_stream" where
  "parallel_for b this stream rng arg_list =
     (case (if MKLDNN_SYCL_MEMORY_API b = MKLDNN_SYCL_MEMORY_API_USM
            then assert_that b False ''not implemented'' else Inr ()) of
        Inl e \<Rightarrow> (Inl e, stream)
      | Inr _ \<Rightarrow>
          if is_zero rng then (Inr success, stream)
          else
            (case new_sycl_kernel (ocl_kernel this) (engine_context (engine stream)) of
               Inl e \<Rightarrow> (Inl e, stream)
             | Inr sycl_kernel \<Rightarrow>
                 (case submit (queue stream) (command_group b sycl_kernel rng arg_list) of
                    Inl e \<Rightarrow> (Inl e, stream)
                  | Inr q \<Rightarrow> (Inr success, stream\<lparr>queue := q\<rparr>))))"

section \<open>Memory storage\<close>

text \<open>
  A \<^verbatim>\<open>buffer_u8_t\<close> is a \<^verbatim>\<open>cl::sycl::buffer\<close>: an object with reference semantics,
  whose copies refer to the same memory object. The heap holds the \<^verbatim>\<open>buffer_u8_t\<close>
  objects of the program: the cell at an address is \<open>None\<close> when no object lives
  there. Each object records the memory object it refers to and how many
  \<^verbatim>\<open>std::shared_ptr\<close> own it (0 for an object with automatic or caller-managed
  lifetime). A pointer is an address, or \<open>None\<close> for \<^verbatim>\<open>nullptr\<close>.
\<close>

record buffer_object =
  mem_object :: buffer_u8
  use_count :: nat

type_synonym heap = "buffer_object option list"

type_synonym pointer = "nat option"

definition deref :: "heap \<Rightarrow> pointer \<Rightarrow> buffer_object option" where
  "deref h p =
     (case p of
        None \<Rightarrow> None
      | Some a \<Rightarrow> if a < length h then h ! a else None)"

text \<open>\<^verbatim>\<open>new buffer_u8_t(src)\<close>: a copy of \<open>src\<close> at a fresh address.\<close>

definition new_buffer_u8 :: "heap \<Rightarrow> buffer_object \<Rightarrow> heap \<times> nat" where
  "new_buffer_u8 h src = (h @ [Some \<lparr>mem_object = mem_object src, use_count = 0\<rparr>], length h)"

text \<open>
  \<^verbatim>\<open>std::shared_ptr::reset(q)\<close>: the shared pointer gives up the object it owned, which
  is deleted when this was its last owner, and becomes the only owner of \<open>q\<close>.
\<close>

definition shared_ptr_release :: "heap \<Rightarrow> pointer \<Rightarrow> heap" where
  "shared_ptr_release h p =
     (case p of
        None \<Rightarrow> h
      | Some a \<Rightarrow>
          (case deref h p of
             None \<Rightarrow> h
           | Some obj \<Rightarrow>
               if use_count obj \<le> 1 then h[a := None]
               else h[a := Some (obj\<lparr>use_count := use_count obj - 1\<rparr>)]))"

definition shared_ptr_reset :: "heap \<Rightarrow> pointer \<Rightarrow> nat \<Rightarrow> heap \<times> pointer" where
  "shared_ptr_reset h old q =
     (let h' = shared_ptr_release h old
      in (case deref h' (Some q) of
            None \<Rightarrow> (h', Some q)
          | Some obj \<Rightarrow> (h'[q := Some (obj\<lparr>use_count := 1\<rparr>)], Some q)))"

text \<open>
  \<^verbatim>\<open>sycl_buffer_memory_storage_t\<close>: the member \<^verbatim>\<open>buffer_\<close>, and the offset kept by the
  base class \<^verbatim>\<open>memory_storage_t\<close> (written by \<^verbatim>\<open>set_offset\<close>).
\<close>

record sycl_buffer_memory_storage =
  buffer_ptr :: pointer
  offset :: "64 word"

text \<open>
  Modelled from the spec: the pointer-backed (USM) storage class is not among the
  sources. It keeps the raw pointer it was given; its handle is that pointer, and its
  base offset is always zero.
\<close>

record sycl_usm_memory_storage =
  usm_ptr :: pointer
  usm_offset :: "64 word"

datatype sycl_memory_storage_base =
    Buffer_storage sycl_buffer_memory_storage
  | Usm_storage sycl_usm_memory_storage

datatype memory_api_kind_t = kind_buffer | kind_usm

fun memory_api_kind :: "sycl_memory_storage_base \<Rightarrow> memory_api_kind_t" where
  "memory_api_kind (Buffer_storage _) = kind_buffer"
| "memory_api_kind (Usm_storage _) = kind_usm"

fun get_data_handle :: "sycl_memory_storage_base \<Rightarrow> status \<times> pointer" where
  "get_data_handle (Buffer_storage this) = (success, buffer_ptr this)"
| "get_data_handle (Usm_storage this) = (success, usm_ptr this)"

text \<open>
  \<^verbatim>\<open>set_data_handle\<close> on a buffer-backed storage dereferences the handle as a
  \<^verbatim>\<open>buffer_u8_t\<close>; where the handle is null or points at no live object the behaviour is
  undefined, which the model reports as \<open>None\<close>.
\<close>

fun set_data_handle ::
  "heap \<Rightarrow> sycl_memory_storage_base \<Rightarrow> pointer \<Rightarrow> (status \<times> heap \<times> sycl_memory_storage_base) option" where
  "set_data_handle h (Buffer_storage this) handle =
     (case deref h handle of
        None \<Rightarrow> None
      | Some buf_u8 \<Rightarrow>
          (let (h1, q) = new_buffer_u8 h buf_u8;
               (h2, p) = shared_ptr_reset h1 (buffer_ptr this) q
           in Some (success, h2, Buffer_storage (this\<lparr>buffer_ptr := p\<rparr>))))"
| "set_data_handle h (Usm_storage this) handle =
     Some (success, h, Usm_storage (this\<lparr>usm_ptr := handle\<rparr>))"

fun base_offset :: "sycl_memory_storage_base \<Rightarrow> 64 word" where
  "base_offset (Buffer_storage this) = 0"
| "base_offset (Usm_storage this) = 0"

text \<open>
  Modelled from the spec: \<^verbatim>\<open>memory_storage_t::set_offset\<close> belongs to the base class,
  declared outside the sources; it stores the byte offset of the storage within its
  backing allocation, which \<^verbatim>\<open>offset()\<close> reads back.
\<close>

fun set_offset :: "sycl_memory_storage_base \<Rightarrow> 64 word \<Rightarrow> sycl_memory_storage_base" where
  "set_offset (Buffer_storage this) off = Buffer_storage (this\<lparr>offset := off\<rparr>)"
| "set_offset (Usm_storage this) off = Usm_storage (this\<lparr>usm_offset := off\<rparr>)"

fun get_offset :: "sycl_memory_storage_base \<Rightarrow> 64 word" where
  "get_offset (Buffer_storage this) = offset this"
| "get_offset (Usm_storage this) = usm_offset this"

text \<open>
  \<^verbatim>\<open>create_memory_t<memory_api_kind_t::buffer>::call<T>\<close> of \<^verbatim>\<open>gemm.cpp\<close>, with
  \<open>sizeof_T\<close> for \<^verbatim>\<open>sizeof(T)\<close>. The local \<^verbatim>\<open>buf_u8\<close> is a further buffer object on
  the memory object of \<^verbatim>\<open>*buf\<close>; it lives until the function returns. The class
  \<^verbatim>\<open>memory_t\<close> is not among the sources: the memory is taken to be its storage, created
  with no data handle (\<^verbatim>\<open>DNNL_MEMORY_NONE\<close>) and offset 0.
\<close>

definition create_memory_buffer ::
  "heap \<Rightarrow> 64 word \<Rightarrow> 64 word \<Rightarrow> pointer \<Rightarrow> (heap \<times> sycl_memory_storage_base) option" where
  "create_memory_buffer h sizeof_T off handle =
     (case deref h handle of
        None \<Rightarrow> None
      | Some buf \<Rightarrow>
          (let (h1, buf_u8) = new_buffer_u8 h buf;
               mem = Buffer_storage \<lparr>buffer_ptr = None, offset = 0\<rparr>
           in (case set_data_handle h1 mem (Some buf_u8) of
                 None \<Rightarrow> None
               | Some (st, h2, mem') \<Rightarrow>
                   Some (h2[buf_u8 := None], set_offset mem' (off * sizeof_T)))))"

text \<open>
  The shared pointer of a buffer-backed storage is empty or owns a live object; a handle
  given to a buffer-backed storage points at a live \<^verbatim>\<open>buffer_u8_t\<close>.
\<close>

fun valid_storage :: "heap \<Rightarrow> sycl_memory_storage_base \<Rightarrow> bool" where
  "valid_storage h (Buffer_storage this) =
     (case buffer_ptr this of None \<Rightarrow> True | Some a \<Rightarrow> deref h (Some a) \<noteq> None)"
| "valid_storage h (Usm_storage this) = True"

fun valid_handle :: "heap \<Rightarrow> sycl_memory_storage_base \<Rightarrow> pointer \<Rightarrow> bool" where
  "valid_handle h (Buffer_storage this) handle = (deref h handle \<noteq> None)"
| "valid_handle h (Usm_storage this) handle = True"

text \<open>
  A float buffer of the caller at address 0, on memory object 21, as the only object of
  the heap.
\<close>

definition caller_heap :: heap where
  "caller_heap = [Some \<lparr>mem_object = 21, use_count = 0\<rparr>]"

section \<open>Observations on a command group\<close>

text \<open>The slots bound by the \<^verbatim>\<open>set_arg\<close> calls of a handler, in call order.\<close>

fun arg_indices :: "handler \<Rightarrow> nat list" where
  "arg_indices [] = []"
| "arg_indices (Set_arg i v # cgh) = i # arg_indices cgh"
| "arg_indices (Parallel_for r k # cgh) = arg_indices cgh"

fun is_set_arg :: "cgh_call \<Rightarrow> bool" where
  "is_set_arg (Set_arg i v) = True"
| "is_set_arg (Parallel_for r k) = False"

text \<open>The values bound to slot \<open>i\<close> by the \<^verbatim>\<open>set_arg\<close> calls of a handler, in call order.\<close>

fun bound_at :: "handler \<Rightarrow> nat \<Rightarrow> arg_binding list" where
  "bound_at [] i = []"
| "bound_at (Set_arg j v # cgh) i = (if j = i then v # bound_at cgh i else bound_at cgh i)"
| "bound_at (Parallel_for r k # cgh) i = bound_at cgh i"

text \<open>A scalar argument has one of the widths \<^verbatim>\<open>set_scalar_arg\<close> handles.\<close>

fun bindable :: "kernel_arg \<Rightarrow> bool" where
  "bindable (Global _) = True"
| "bindable (Scalar size' _) = (size' = 1 \<or> size' = 2 \<or> size' = 4 \<or> size' = 8)"

section \<open>A dispatch scenario\<close>

text \<open>
  The argument list \<open>[scalar(int32 = 7), memory(storageA), memory(null)]\<close> over the
  range global = (64) with no local extent, on an empty queue, for a kernel whose handle
  the context knows.
\<close>

definition storageA :: sycl_memory_storage where
  "storageA = \<lparr>buffer = 11, vptr = Vptr 12\<rparr>"

definition int32_seven :: raw_bytes where
  "int32_seven = (\<lambda>k. if k = 0 then 7 else 0)"

definition scenario_args :: kernel_arg_list where
  "scenario_args = [Scalar 4 int32_seven, Global (Some storageA), Global None]"

definition scenario_stream :: sycl_stream where
  "scenario_stream =
     \<lparr>engine = \<lparr>engine_context = \<lparr>context_id = 1, context_kernels = [5]\<rparr>\<rparr>, queue = []\<rparr>"

definition scenario_kernel :: sycl_ocl_gpu_kernel where
  "scenario_kernel = \<lparr>ocl_kernel = Some 5\<rparr>"

definition flat_range :: nd_range where
  "flat_range = \<lparr>global_range = [64], local_range = None\<rparr>"

definition grouped_range :: nd_range where
  "grouped_range = \<lparr>global_range = [64], local_range = Some [8]\<rparr>"

definition zero_range :: nd_range where
  "zero_range = \<lparr>global_range = [0], local_range = None\<rparr>"

definition buffer_build :: build where
  "buffer_build = \<lparr>MKLDNN_SYCL_MEMORY_API = MKLDNN_SYCL_MEMORY_API_BUFFER, NDEBUG = False\<rparr>"

definition buffer_release_build :: build where
  "buffer_release_build = \<lparr>MKLDNN_SYCL_MEMORY_API = MKLDNN_SYCL_MEMORY_API_BUFFER, NDEBUG = True\<rparr>"

definition usm_debug_build :: build where
  "usm_debug_build = \<lparr>MKLDNN_SYCL_MEMORY_API = MKLDNN_SYCL_MEMORY_API_USM, NDEBUG = False\<rparr>"

definition usm_release_build :: build where
  "usm_release_build = \<lparr>MKLDNN_SYCL_MEMORY_API = MKLDNN_SYCL_MEMORY_API_USM, NDEBUG = True\<rparr>"

section \<open>Reading scalars\<close>

lemma uint_byte_bound: "0 \<le> uint (w :: 8 word)" "uint (w :: 8 word) < 256"
  using uint_bounded [of w] by simp_all

lemma uint_word_of_int_small:
  "0 \<le> k \<Longrightarrow> k < 2 ^ LENGTH('a) \<Longrightarrow> uint (word_of_int k :: 'a::len word) = k"
  by (simp only: uint_word_of_int mod_pos_pos_trivial)

lemma uint_load_uint16: "uint (load_uint16 p) = (\<Sum>k<2. uint (p k) * 256 ^ k)"
proof -
  let ?s = "uint (p 0) + 256 * uint (p 1)"
  have b: "0 \<le> ?s" "?s < 2 ^ LENGTH(16)"
    using uint_byte_bound [of "p 0"] uint_byte_bound [of "p 1"] by simp_all
  have "load_uint16 p = word_of_int ?s"
    by (simp add: load_uint16_def word_rcat_def)
  then have "uint (load_uint16 p) = ?s"
    by (simp only: uint_word_of_int_small [OF b])
  also have "?s = (\<Sum>k<2. uint (p k) * 256 ^ k)"
    by (simp add: lessThan_nat_numeral lessThan_Suc)
  finally show ?thesis .
qed

lemma uint_load_uint32: "uint (load_uint32 p) = (\<Sum>k<4. uint (p k) * 256 ^ k)"
proof -
  let ?s = "uint (p 0) + 256 * uint (p 1) + 65536 * uint (p 2) + 16777216 * uint (p 3)"
  have b: "0 \<le> ?s" "?s < 2 ^ LENGTH(32)"
    using uint_byte_bound [of "p 0"] uint_byte_bound [of "p 1"] uint_byte_bound [of "p 2"]
      uint_byte_bound [of "p 3"] by simp_all
  have "load_uint32 p = word_of_int ?s"
    by (simp add: load_uint32_def word_rcat_def algebra_simps)
  then have "uint (load_uint32 p) = ?s"
    by (simp only: uint_word_of_int_small [OF b])
  also have "?s = (\<Sum>k<4. uint (p k) * 256 ^ k)"
    by (simp add: lessThan_nat_numeral lessThan_Suc algebra_simps)
  finally show ?thesis .
qed

lemma uint_load_uint64: "uint (load_uint64 p) = (\<Sum>k<8. uint (p k) * 256 ^ k)"
proof -
  let ?s = "uint (p 0) + 256 * uint (p 1) + 65536 * uint (p 2) + 16777216 * uint (p 3)
    + 4294967296 * uint (p 4) + 1099511627776 * uint (p 5) + 281474976710656 * uint (p 6)
    + 72057594037927936 * uint (p 7)"
  have b: "0 \<le> ?s" "?s < 2 ^ LENGTH(64)"
    using uint_byte_bound [of "p 0"] uint_byte_bound [of "p 1"] uint_byte_bound [of "p 2"]
      uint_byte_bound [of "p 3"] uint_byte_bound [of "p 4"] uint_byte_bound [of "p 5"]
      uint_byte_bound [of "p 6"] uint_byte_bound [of "p 7"] by simp_all
  have "load_uint64 p = word_of_int ?s"
    by (simp add: load_uint64_def word_rcat_def algebra_simps)
  then have "uint (load_uint64 p) = ?s"
    by (simp only: uint_word_of_int_small [OF b])
  also have "?s = (\<Sum>k<8. uint (p k) * 256 ^ k)"
    by (simp add: lessThan_nat_numeral lessThan_Suc algebra_simps)
  finally show ?thesis .
qed

text \<open>
  C2, as stated, fails where assertions are compiled out: for a width outside 1, 2, 4, 8
  the assertion is a no-op there and \<^verbatim>\<open>set_scalar_arg\<close> leaves by throwing
  \<^verbatim>\<open>std::runtime_error\<close>, an exception a caller can catch, not by a fatal exit.
\<close>

theorem set_scalar_arg_counterexample:
  "(3::nat) \<notin> {1, 2, 4, 8}
   \<and> NDEBUG buffer_release_build
   \<and> set_scalar_arg buffer_release_build [] 0 3 int32_seven = Inl (Runtime_error ''Internal error'')
   \<and> \<not> fatal (Runtime_error ''Internal error'')"
  by (simp add: set_scalar_arg_def assert_that_def buffer_release_build_def)

text \<open>
  C2, amended. A scalar argument of width 1, 2, 4 or 8 is bound as the unsigned integer
  of that width whose value is the little-endian reading of exactly that many bytes,
  nothing dropped. For every other width \<^verbatim>\<open>set_scalar_arg\<close> binds nothing and does not
  return, so no value is truncated or coerced: with assertions enabled it leaves through
  the failed assertion, which is fatal; with assertions compiled out it leaves through
  the \<^verbatim>\<open>std::runtime_error\<close> thrown after the assertion, which is not.
\<close>

theorem set_scalar_arg_widths:
  "(size' = 1 \<longrightarrow> set_scalar_arg b cgh i size' val = Inr (cgh @ [Set_arg i (UInt8 (val 0))]))
   \<and> (size' = 2 \<longrightarrow> (\<exists>w. set_scalar_arg b cgh i size' val = Inr (cgh @ [Set_arg i (UInt16 w)])
          \<and> uint w = (\<Sum>k<2. uint (val k) * 256 ^ k)))
   \<and> (size' = 4 \<longrightarrow> (\<exists>w. set_scalar_arg b cgh i size' val = Inr (cgh @ [Set_arg i (UInt32 w)])
          \<and> uint w = (\<Sum>k<4. uint (val k) * 256 ^ k)))
   \<and> (size' = 8 \<longrightarrow> (\<exists>w. set_scalar_arg b cgh i size' val = Inr (cgh @ [Set_arg i (UInt64 w)])
          \<and> uint w = (\<Sum>k<8. uint (val k) * 256 ^ k)))
   \<and> (size' \<notin> {1, 2, 4, 8} \<longrightarrow>
          (\<exists>e. set_scalar_arg b cgh i size' val = Inl e
             \<and> e = (if NDEBUG b then Runtime_error ''Internal error''
                    else Assertion_failed ''Please add another case'')
             \<and> (fatal e \<longleftrightarrow> \<not> NDEBUG b)))"
proof (intro conjI impI)
  assume "size' = 1"
  then show "set_scalar_arg b cgh i size' val = Inr (cgh @ [Set_arg i (UInt8 (val 0))])"
    by (simp add: set_scalar_arg_def set_arg_def load_uint8_def)
next
  assume "size' = 2"
  then show "\<exists>w. set_scalar_arg b cgh i size' val = Inr (cgh @ [Set_arg i (UInt16 w)])
      \<and> uint w = (\<Sum>k<2. uint (val k) * 256 ^ k)"
    by (simp add: set_scalar_arg_def set_arg_def uint_load_uint16)
next
  assume "size' = 4"
  then show "\<exists>w. set_scalar_arg b cgh i size' val = Inr (cgh @ [Set_arg i (UInt32 w)])
      \<and> uint w = (\<Sum>k<4. uint (val k) * 256 ^ k)"
    by (simp add: set_scalar_arg_def set_arg_def uint_load_uint32)
next
  assume "size' = 8"
  then show "\<exists>w. set_scalar_arg b cgh i size' val = Inr (cgh @ [Set_arg i (UInt64 w)])
      \<and> uint w = (\<Sum>k<8. uint (val k) * 256 ^ k)"
    by (simp add: set_scalar_arg_def set_arg_def uint_load_uint64)
next
  assume "size' \<notin> {1, 2, 4, 8}"
  then show "\<exists>e. set_scalar_arg b cgh i size' val = Inl e
      \<and> e = (if NDEBUG b then Runtime_error ''Internal error''
             else Assertion_failed ''Please add another case'')
      \<and> (fatal e \<longleftrightarrow> \<not> NDEBUG b)"
    by (simp add: set_scalar_arg_def assert_that_def)
qed

theorem set_scalar_arg_widths_witness:
  "(\<exists>w. set_scalar_arg buffer_build [] 0 4 int32_seven = Inr [Set_arg 0 (UInt32 w)] \<and> uint w = 7)
   \<and> (3::nat) \<notin> {1, 2, 4, 8}
   \<and> set_scalar_arg buffer_build [] 0 3 int32_seven = Inl (Assertion_failed ''Please add another case'')
   \<and> set_scalar_arg usm_release_build [] 0 3 int32_seven = Inl (Runtime_error ''Internal error'')"
  using set_scalar_arg_widths [of 4 buffer_build "[]" 0 int32_seven]
    set_scalar_arg_widths [of 3 buffer_build "[]" 0 int32_seven]
    set_scalar_arg_widths [of 3 usm_release_build "[]" 0 int32_seven]
  by (simp add: int32_seven_def buffer_build_def usm_release_build_def lessThan_nat_numeral lessThan_Suc)

section \<open>Running the scenario\<close>

lemmas scenario_defs = storageA_def int32_seven_def scenario_args_def scenario_stream_def
  scenario_kernel_def flat_range_def grouped_range_def zero_range_def buffer_build_def
  usm_debug_build_def usm_release_build_def

lemmas dispatch_defs = parallel_for_def assert_that_def is_zero_def new_sycl_kernel_def submit_def
  command_group_def nargs_def bind_arg_def set_scalar_arg_def set_arg_def handler_parallel_for_def
  to_sycl_range_def to_sycl_nd_range_def load_uint32_def word_rcat_def

lemma scenario_flat_run:
  "parallel_for buffer_build scenario_kernel scenario_stream flat_range scenario_args =
     (Inr success,
      scenario_stream\<lparr>queue :=
        [[Set_arg 0 (UInt32 7), Set_arg 1 (Accessor Read_write 11), Set_arg 2 Nullptr,
          Parallel_for (Sycl_range [64]) \<lparr>kernel_handle = 5, kernel_context = 1\<rparr>]]\<rparr>)"
  by (simp add: dispatch_defs scenario_defs bind_args.simps)

lemma scenario_grouped_run:
  "parallel_for buffer_build scenario_kernel scenario_stream grouped_range scenario_args =
     (Inr success,
      scenario_stream\<lparr>queue :=
        [[Set_arg 0 (UInt32 7), Set_arg 1 (Accessor Read_write 11), Set_arg 2 Nullptr,
          Parallel_for (Sycl_nd_range [64] [8]) \<lparr>kernel_handle = 5, kernel_context = 1\<rparr>]]\<rparr>)"
  by (simp add: dispatch_defs scenario_defs bind_args.simps)

lemma scenario_usm_release_run:
  "parallel_for usm_release_build scenario_kernel scenario_stream flat_range scenario_args =
     (Inr success,
      scenario_stream\<lparr>queue :=
        [[Set_arg 0 (UInt32 7), Set_arg 2 Nullptr,
          Parallel_for (Sycl_range [64]) \<lparr>kernel_handle = 5, kernel_context = 1\<rparr>]]\<rparr>)"
  by (simp add: dispatch_defs scenario_defs bind_args.simps)

section \<open>The argument loop\<close>

text \<open>
  Each pass of the loop appends to the handler the calls the body makes on an empty one,
  and the body makes at most one call, a \<^verbatim>\<open>set_arg\<close> on its own index.
\<close>

lemma bind_arg_append:
  "bind_arg b cgh i a = Inr cgh' \<Longrightarrow> \<exists>calls. bind_arg b [] i a = Inr calls \<and> cgh' = cgh @ calls"
  by (auto simp: bind_arg_def set_scalar_arg_def set_arg_def assert_that_def
      split: kernel_arg.splits option.splits memory_api.splits if_splits)

lemma bind_arg_calls:
  "bind_arg b [] i a = Inr calls \<Longrightarrow> calls = [] \<or> (\<exists>v. calls = [Set_arg i v])"
  by (auto simp: bind_arg_def set_scalar_arg_def set_arg_def assert_that_def
      split: kernel_arg.splits option.splits memory_api.splits if_splits)

lemma bind_arg_calls_supported:
  "MKLDNN_SYCL_MEMORY_API b \<noteq> MKLDNN_SYCL_MEMORY_API_USM \<Longrightarrow> bind_arg b [] i a = Inr calls
     \<Longrightarrow> \<exists>v. calls = [Set_arg i v]"
  by (auto simp: bind_arg_def set_scalar_arg_def set_arg_def assert_that_def
      split: kernel_arg.splits option.splits memory_api.splits if_splits)

lemma bind_args_calls:
  "bind_args b arg_list i cgh = Inr cgh' \<Longrightarrow>
     \<exists>f. (\<forall>j. i \<le> j \<and> j < nargs arg_list \<longrightarrow> bind_arg b [] j (arg_list ! j) = Inr (f j))
        \<and> cgh' = cgh @ concat (map f [i..<nargs arg_list])"
proof (induction b arg_list i cgh rule: bind_args.induct)
  case (1 b arg_list i cgh)
  show ?case
  proof (cases "i < nargs arg_list")
    case True
    with "1.prems" obtain c1 where c1: "bind_arg b cgh i (arg_list ! i) = Inr c1"
      and rest: "bind_args b arg_list (Suc i) c1 = Inr cgh'"
      by (auto simp: bind_args.simps [of b arg_list i cgh] split: sum.splits)
    from bind_arg_append [OF c1] obtain calls
      where calls: "bind_arg b [] i (arg_list ! i) = Inr calls" "c1 = cgh @ calls"
      by blast
    from "1.IH" [OF True c1 rest] obtain f
      where f: "\<forall>j. Suc i \<le> j \<and> j < nargs arg_list \<longrightarrow> bind_arg b [] j (arg_list ! j) = Inr (f j)"
        and cgh': "cgh' = c1 @ concat (map f [Suc i..<nargs arg_list])"
      by blast
    let ?g = "f(i := calls)"
    have "\<forall>j. i \<le> j \<and> j < nargs arg_list \<longrightarrow> bind_arg b [] j (arg_list ! j) = Inr (?g j)"
      using f calls(1) by (auto simp: le_Suc_eq)
    moreover have "map ?g [Suc i..<nargs arg_list] = map f [Suc i..<nargs arg_list]"
      by simp
    then have "cgh' = cgh @ concat (map ?g [i..<nargs arg_list])"
      using cgh' calls(2) True by (simp add: upt_conv_Cons)
    ultimately show ?thesis by blast
  next
    case False
    with "1.prems" have "cgh' = cgh"
      by (simp add: bind_args.simps [of b arg_list i cgh])
    with False show ?thesis by auto
  qed
qed

lemma arg_indices_concat:
  "\<forall>j\<in>set js. f j = [] \<or> (\<exists>v. f j = [Set_arg j v]) \<Longrightarrow>
     arg_indices (concat (map f js)) = filter (\<lambda>j. f j \<noteq> []) js"
  by (induction js) auto

lemma is_set_arg_concat:
  "\<forall>j\<in>set js. f j = [] \<or> (\<exists>v. f j = [Set_arg j v]) \<Longrightarrow>
     \<forall>c\<in>set (concat (map f js)). is_set_arg c"
  by (induction js) auto

lemma parallel_for_submitted:
  assumes "parallel_for b this stream rng arg_list = (Inr st, stream')" and "\<not> is_zero rng"
  shows "\<exists>k binds. new_sycl_kernel (ocl_kernel this) (engine_context (engine stream)) = Inr k
      \<and> bind_args b arg_list 0 [] = Inr binds
      \<and> stream' = stream\<lparr>queue := queue stream @
          [binds @ [Parallel_for (if local_range rng \<noteq> None then to_sycl_nd_range rng
                                  else to_sycl_range rng) k]]\<rparr>"
  using assms
  by (auto simp: parallel_for_def submit_def command_group_def handler_parallel_for_def
      split: sum.splits if_splits)


lemma bound_at_append: "bound_at (xs @ ys) i = bound_at xs i @ bound_at ys i"
  by (induction xs i rule: bound_at.induct) auto

lemma bound_at_concat:
  "\<forall>j\<in>set js. f j = [] \<or> (\<exists>v. f j = [Set_arg j v]) \<Longrightarrow> distinct js \<Longrightarrow>
     bound_at (concat (map f js)) i = (if i \<in> set js then bound_at (f i) i else [])"
proof (induction js)
  case Nil
  then show ?case by simp
next
  case (Cons j js)
  then have shape: "f j = [] \<or> (\<exists>v. f j = [Set_arg j v])" by simp
  from Cons have IH: "bound_at (concat (map f js)) i = (if i \<in> set js then bound_at (f i) i else [])"
    by simp
  from Cons.prems have nin: "j \<notin> set js" by simp
  show ?case
  proof (cases "i = j")
    case True
    with nin IH show ?thesis by (simp add: bound_at_append)
  next
    case False
    with shape have "bound_at (f j) i = []" by auto
    with False IH show ?thesis by (simp add: bound_at_append)
  qed
qed

lemma bind_arg_succeeds:
  "bindable a \<Longrightarrow> MKLDNN_SYCL_MEMORY_API b \<noteq> MKLDNN_SYCL_MEMORY_API_USM \<or> NDEBUG b \<Longrightarrow>
     \<exists>cgh'. bind_arg b cgh i a = Inr cgh'"
  by (cases a)
     (auto simp: bind_arg_def set_scalar_arg_def assert_that_def
       split: option.splits memory_api.splits)

lemma bind_args_from_empty:
  assumes "bind_args b arg_list 0 [] = Inr binds"
  shows "\<exists>f. (\<forall>j<nargs arg_list. bind_arg b [] j (arg_list ! j) = Inr (f j))
      \<and> (\<forall>j\<in>set [0..<nargs arg_list]. f j = [] \<or> (\<exists>v. f j = [Set_arg j v]))
      \<and> binds = concat (map f [0..<nargs arg_list])"
proof -
  from bind_args_calls [OF assms] obtain f
    where f: "\<forall>j. 0 \<le> j \<and> j < nargs arg_list \<longrightarrow> bind_arg b [] j (arg_list ! j) = Inr (f j)"
      and binds_eq: "binds = concat (map f [0..<nargs arg_list])"
    by auto
  have "\<forall>j\<in>set [0..<nargs arg_list]. f j = [] \<or> (\<exists>v. f j = [Set_arg j v])"
  proof
    fix j assume "j \<in> set [0..<nargs arg_list]"
    then have "bind_arg b [] j (arg_list ! j) = Inr (f j)" using f by simp
    then show "f j = [] \<or> (\<exists>v. f j = [Set_arg j v])" by (rule bind_arg_calls)
  qed
  with f binds_eq show ?thesis by auto
qed

lemma bind_args_succeeds:
  "\<forall>a\<in>set arg_list. bindable a \<Longrightarrow>
   MKLDNN_SYCL_MEMORY_API b \<noteq> MKLDNN_SYCL_MEMORY_API_USM \<or> NDEBUG b \<Longrightarrow>
     \<exists>cgh'. bind_args b arg_list i cgh = Inr cgh'"
proof (induction b arg_list i cgh rule: bind_args.induct)
  case (1 b arg_list i cgh)
  show ?case
  proof (cases "i < nargs arg_list")
    case True
    then have "bindable (arg_list ! i)" using "1.prems"(1) by (simp add: nargs_def)
    from bind_arg_succeeds [OF this "1.prems"(2)]
    obtain c1 where c1: "bind_arg b cgh i (arg_list ! i) = Inr c1" by blast
    from "1.IH" [OF True c1 "1.prems"] obtain cgh' where "bind_args b arg_list (Suc i) c1 = Inr cgh'"
      by blast
    with True c1 show ?thesis by (simp add: bind_args.simps [of b arg_list i cgh])
  next
    case False
    then show ?thesis by (simp add: bind_args.simps [of b arg_list i cgh])
  qed
qed

lemma parallel_for_submits:
  assumes "\<not> is_zero rng"
    and "ocl_kernel this = Some h" and "h \<in> set (context_kernels (engine_context (engine stream)))"
    and "\<forall>a\<in>set arg_list. bindable a"
    and "MKLDNN_SYCL_MEMORY_API b \<noteq> MKLDNN_SYCL_MEMORY_API_USM"
  shows "\<exists>stream'. parallel_for b this stream rng arg_list = (Inr success, stream')"
proof -
  from bind_args_succeeds [of arg_list b 0 "[]"] assms(4,5)
  obtain binds where "bind_args b arg_list 0 [] = Inr binds" by blast
  with assms show ?thesis
    by (simp add: parallel_for_def new_sycl_kernel_def submit_def command_group_def)
qed

section \<open>Binding order\<close>

text \<open>
  C7, as stated, fails in a USM build with assertions compiled out: a global argument
  with non-null storage is passed over, so for the three arguments of the scenario the
  submitted command group binds slots 0 and 2 only, not 0, 1, 2.
\<close>

theorem bindings_counterexample:
  "\<not> is_zero flat_range
   \<and> nargs scenario_args = 3
   \<and> fst (parallel_for usm_release_build scenario_kernel scenario_stream flat_range scenario_args)
       = Inr success
   \<and> arg_indices (last (queue (snd (parallel_for usm_release_build scenario_kernel scenario_stream
                                       flat_range scenario_args)))) = [0, 2]"
  by (simp add: scenario_usm_release_run)
     (simp add: is_zero_def flat_range_def nargs_def scenario_args_def)

text \<open>
  C7, amended. For a non-zero range, the command group that \<^verbatim>\<open>parallel_for\<close> submits
  consists of \<^verbatim>\<open>set_arg\<close> calls followed by one dispatch, which comes last; the slots
  of the \<^verbatim>\<open>set_arg\<close> calls are strictly increasing and below the number of arguments,
  and in a buffer or virtual-pointer build they are exactly 0, 1, ..., N-1.
\<close>

theorem bindings_in_index_order:
  assumes "parallel_for b this stream rng arg_list = (Inr st, stream')" and "\<not> is_zero rng"
  shows "\<exists>binds r k. queue stream' = queue stream @ [binds @ [Parallel_for r k]]
      \<and> (\<forall>c\<in>set binds. is_set_arg c)
      \<and> sorted_wrt (<) (arg_indices binds)
      \<and> set (arg_indices binds) \<subseteq> {..<nargs arg_list}
      \<and> (MKLDNN_SYCL_MEMORY_API b \<noteq> MKLDNN_SYCL_MEMORY_API_USM
           \<longrightarrow> arg_indices binds = [0..<nargs arg_list])"
proof -
  from parallel_for_submitted [OF assms] obtain k binds
    where binds: "bind_args b arg_list 0 [] = Inr binds"
      and stream': "stream' = stream\<lparr>queue := queue stream @
          [binds @ [Parallel_for (if local_range rng \<noteq> None then to_sycl_nd_range rng
                                  else to_sycl_range rng) k]]\<rparr>"
    by blast
  from bind_args_from_empty [OF binds] obtain f
    where f: "\<forall>j<nargs arg_list. bind_arg b [] j (arg_list ! j) = Inr (f j)"
      and shape: "\<forall>j\<in>set [0..<nargs arg_list]. f j = [] \<or> (\<exists>v. f j = [Set_arg j v])"
      and binds_eq: "binds = concat (map f [0..<nargs arg_list])"
    by blast
  have idx: "arg_indices binds = filter (\<lambda>j. f j \<noteq> []) [0..<nargs arg_list]"
    unfolding binds_eq by (rule arg_indices_concat [OF shape])
  have "\<forall>c\<in>set binds. is_set_arg c"
    unfolding binds_eq by (rule is_set_arg_concat [OF shape])
  moreover have "sorted_wrt (<) (arg_indices binds)"
    unfolding idx by (rule sorted_wrt_filter) simp
  moreover have "set (arg_indices binds) \<subseteq> {..<nargs arg_list}"
    unfolding idx by auto
  moreover have "arg_indices binds = [0..<nargs arg_list]"
    if "MKLDNN_SYCL_MEMORY_API b \<noteq> MKLDNN_SYCL_MEMORY_API_USM"
  proof -
    have "\<forall>j\<in>set [0..<nargs arg_list]. f j \<noteq> []"
      using f bind_arg_calls_supported [OF that] by fastforce
    then show ?thesis unfolding idx by simp
  qed
  moreover have "queue stream' = queue stream @
      [binds @ [Parallel_for (if local_range rng \<noteq> None then to_sycl_nd_range rng
                              else to_sycl_range rng) k]]"
    using stream' by simp
  ultimately show ?thesis by blast
qed

theorem bindings_in_index_order_witness:
  "\<not> is_zero flat_range
   \<and> MKLDNN_SYCL_MEMORY_API buffer_build \<noteq> MKLDNN_SYCL_MEMORY_API_USM
   \<and> (\<exists>binds r k.
         queue (snd (parallel_for buffer_build scenario_kernel scenario_stream flat_range
                       scenario_args))
           = queue scenario_stream @ [binds @ [Parallel_for r k]]
         \<and> (\<forall>c\<in>set binds. is_set_arg c)
         \<and> arg_indices binds = [0, 1, 2])"
proof -
  have nz: "\<not> is_zero flat_range" by (simp add: is_zero_def flat_range_def)
  have api: "MKLDNN_SYCL_MEMORY_API buffer_build \<noteq> MKLDNN_SYCL_MEMORY_API_USM"
    by (simp add: buffer_build_def)
  have run: "parallel_for buffer_build scenario_kernel scenario_stream flat_range scenario_args
      = (Inr success, snd (parallel_for buffer_build scenario_kernel scenario_stream flat_range
                             scenario_args))"
    by (simp add: scenario_flat_run)
  have n: "[0..<nargs scenario_args] = [0, 1, 2]"
    by (simp add: nargs_def scenario_args_def upt_rec)
  show ?thesis
    using nz api bindings_in_index_order [OF run nz] unfolding n by blast
qed

section \<open>Submission shape\<close>

text \<open>
  C6. For a non-zero range, the dispatch that ends the submitted command group is the
  grouped one, over the global and the local extent, when the range has a local extent,
  and the flat one over the global extent when it has none; the kernel dispatched is the
  one constructed from the stored handle.
\<close>

theorem submission_shape:
  assumes "parallel_for b this stream rng arg_list = (Inr st, stream')" and "\<not> is_zero rng"
  shows "\<exists>binds k. new_sycl_kernel (ocl_kernel this) (engine_context (engine stream)) = Inr k
      \<and> (\<forall>c\<in>set binds. is_set_arg c)
      \<and> queue stream' = queue stream @
           [binds @ [Parallel_for (case local_range rng of
                                     Some l \<Rightarrow> Sycl_nd_range (global_range rng) l
                                   | None \<Rightarrow> Sycl_range (global_range rng)) k]]"
proof -
  from parallel_for_submitted [OF assms] obtain k binds
    where k: "new_sycl_kernel (ocl_kernel this) (engine_context (engine stream)) = Inr k"
      and binds: "bind_args b arg_list 0 [] = Inr binds"
      and stream': "stream' = stream\<lparr>queue := queue stream @
          [binds @ [Parallel_for (if local_range rng \<noteq> None then to_sycl_nd_range rng
                                  else to_sycl_range rng) k]]\<rparr>"
    by blast
  from bind_args_from_empty [OF binds] obtain f
    where f: "\<forall>j<nargs arg_list. bind_arg b [] j (arg_list ! j) = Inr (f j)"
      and shape: "\<forall>j\<in>set [0..<nargs arg_list]. f j = [] \<or> (\<exists>v. f j = [Set_arg j v])"
      and binds_eq: "binds = concat (map f [0..<nargs arg_list])"
    by blast
  have "\<forall>c\<in>set binds. is_set_arg c"
    unfolding binds_eq by (rule is_set_arg_concat [OF shape])
  moreover have "(if local_range rng \<noteq> None then to_sycl_nd_range rng else to_sycl_range rng)
      = (case local_range rng of Some l \<Rightarrow> Sycl_nd_range (global_range rng) l
         | None \<Rightarrow> Sycl_range (global_range rng))"
    by (simp add: to_sycl_nd_range_def to_sycl_range_def split: option.splits)
  ultimately show ?thesis using k stream' by auto
qed

theorem submission_shape_witness:
  "\<not> is_zero flat_range \<and> \<not> is_zero grouped_range
   \<and> (\<exists>binds k.
         queue (snd (parallel_for buffer_build scenario_kernel scenario_stream flat_range
                       scenario_args))
           = queue scenario_stream @ [binds @ [Parallel_for (Sycl_range [64]) k]])
   \<and> (\<exists>binds k.
         queue (snd (parallel_for buffer_build scenario_kernel scenario_stream grouped_range
                       scenario_args))
           = queue scenario_stream @ [binds @ [Parallel_for (Sycl_nd_range [64] [8]) k]])"
proof -
  have nz: "\<not> is_zero flat_range" and nz': "\<not> is_zero grouped_range"
    by (simp_all add: is_zero_def flat_range_def grouped_range_def)
  have run: "parallel_for buffer_build scenario_kernel scenario_stream flat_range scenario_args
      = (Inr success, snd (parallel_for buffer_build scenario_kernel scenario_stream flat_range
                             scenario_args))"
    by (simp add: scenario_flat_run)
  have run': "parallel_for buffer_build scenario_kernel scenario_stream grouped_range scenario_args
      = (Inr success, snd (parallel_for buffer_build scenario_kernel scenario_stream grouped_range
                             scenario_args))"
    by (simp add: scenario_grouped_run)
  have l: "local_range flat_range = None" "global_range flat_range = [64]"
    "local_range grouped_range = Some [8]" "global_range grouped_range = [64]"
    by (simp_all add: flat_range_def grouped_range_def)
  show ?thesis
    using nz nz' submission_shape [OF run nz] submission_shape [OF run' nz']
    unfolding l option.case by blast
qed


section \<open>Global arguments\<close>

text \<open>
  C1, as stated, fails in a USM build: the branch for a non-null storage holds only
  \<^verbatim>\<open>assert(false)\<close>, so with assertions compiled out the dispatch is submitted with
  nothing bound at that slot, and with assertions the call stops before any binding.
\<close>

theorem global_args_counterexample:
  "scenario_args ! 1 = Global (Some storageA)
   \<and> \<not> is_zero flat_range
   \<and> fst (parallel_for usm_release_build scenario_kernel scenario_stream flat_range scenario_args)
       = Inr success
   \<and> bound_at (last (queue (snd (parallel_for usm_release_build scenario_kernel scenario_stream
                                    flat_range scenario_args)))) 1 = []
   \<and> parallel_for usm_debug_build scenario_kernel scenario_stream flat_range scenario_args
       = (Inl (Assertion_failed ''not implemented''), scenario_stream)"
  by (simp add: scenario_usm_release_run)
     (simp add: scenario_args_def is_zero_def flat_range_def parallel_for_def assert_that_def
        usm_debug_build_def)

text \<open>
  C1, amended. For a non-zero range, in the command group that \<^verbatim>\<open>parallel_for\<close>
  submits, a global argument with null storage is bound at its slot, once, as the null
  reference in every build; a global argument with non-null storage is bound at its
  slot, once, as a read-write accessor of the storage's buffer in a buffer build, and of
  the buffer behind the storage's virtual pointer in a virtual-pointer build.
\<close>

theorem global_args_bound:
  assumes "parallel_for b this stream rng arg_list = (Inr st, stream')" and "\<not> is_zero rng"
    and "i < nargs arg_list"
  shows "(arg_list ! i = Global None \<longrightarrow> bound_at (last (queue stream')) i = [Nullptr])
    \<and> (\<forall>s. arg_list ! i = Global (Some s)
            \<and> MKLDNN_SYCL_MEMORY_API b = MKLDNN_SYCL_MEMORY_API_BUFFER \<longrightarrow>
          bound_at (last (queue stream')) i = [Accessor Read_write (buffer s)])
    \<and> (\<forall>s. arg_list ! i = Global (Some s)
            \<and> MKLDNN_SYCL_MEMORY_API b = MKLDNN_SYCL_MEMORY_API_VPTR \<longrightarrow>
          bound_at (last (queue stream')) i = [Accessor Read_write (get_sycl_buffer (vptr s))])"
proof -
  from parallel_for_submitted [OF assms(1,2)] obtain k binds
    where binds: "bind_args b arg_list 0 [] = Inr binds"
      and stream': "stream' = stream\<lparr>queue := queue stream @
          [binds @ [Parallel_for (if local_range rng \<noteq> None then to_sycl_nd_range rng
                                  else to_sycl_range rng) k]]\<rparr>"
    by blast
  from bind_args_from_empty [OF binds] obtain f
    where f: "\<forall>j<nargs arg_list. bind_arg b [] j (arg_list ! j) = Inr (f j)"
      and shape: "\<forall>j\<in>set [0..<nargs arg_list]. f j = [] \<or> (\<exists>v. f j = [Set_arg j v])"
      and binds_eq: "binds = concat (map f [0..<nargs arg_list])"
    by blast
  have "bound_at (last (queue stream')) i = bound_at binds i"
    using stream' by (simp add: bound_at_append)
  also have "\<dots> = bound_at (f i) i"
    unfolding binds_eq using bound_at_concat [OF shape, of i] assms(3) by simp
  finally have slot: "bound_at (last (queue stream')) i = bound_at (f i) i" .
  from f assms(3) have fi: "bind_arg b [] i (arg_list ! i) = Inr (f i)" by simp
  show ?thesis
    using fi [symmetric] unfolding slot
    by (auto simp: bind_arg_def set_arg_def)
qed

theorem global_args_bound_witness:
  "\<not> is_zero flat_range \<and> 1 < nargs scenario_args \<and> 2 < nargs scenario_args
   \<and> scenario_args ! 1 = Global (Some storageA) \<and> scenario_args ! 2 = Global None
   \<and> MKLDNN_SYCL_MEMORY_API buffer_build = MKLDNN_SYCL_MEMORY_API_BUFFER
   \<and> bound_at (last (queue (snd (parallel_for buffer_build scenario_kernel scenario_stream
                                    flat_range scenario_args)))) 1
       = [Accessor Read_write (buffer storageA)]
   \<and> bound_at (last (queue (snd (parallel_for buffer_build scenario_kernel scenario_stream
                                    flat_range scenario_args)))) 2
       = [Nullptr]"
proof -
  have nz: "\<not> is_zero flat_range" by (simp add: is_zero_def flat_range_def)
  have api: "MKLDNN_SYCL_MEMORY_API buffer_build = MKLDNN_SYCL_MEMORY_API_BUFFER"
    by (simp add: buffer_build_def)
  have n: "1 < nargs scenario_args" "2 < nargs scenario_args"
    by (simp_all add: nargs_def scenario_args_def)
  have a: "scenario_args ! 1 = Global (Some storageA)" "scenario_args ! 2 = Global None"
    by (simp_all add: scenario_args_def)
  have run: "parallel_for buffer_build scenario_kernel scenario_stream flat_range scenario_args
      = (Inr success, snd (parallel_for buffer_build scenario_kernel scenario_stream flat_range
                             scenario_args))"
    by (simp add: scenario_flat_run)
  show ?thesis
    using nz api n a global_args_bound [OF run nz n(1)] global_args_bound [OF run nz n(2)]
    by blast
qed

section \<open>The status returned by a dispatch\<close>




section \<open>The zero range\<close>

text \<open>
  C4, as stated, fails in a USM build with assertions enabled: the assertion
  \<^verbatim>\<open>not implemented\<close> stands before the test of the range, so a zero range does not
  return success there.
\<close>

theorem zero_range_counterexample:
  "is_zero zero_range \<and>
   fst (parallel_for usm_debug_build scenario_kernel scenario_stream zero_range scenario_args)
     \<noteq> Inr success"
  by (simp add: parallel_for_def assert_that_def is_zero_def zero_range_def usm_debug_build_def)

text \<open>
  C4, amended. For a zero range the stream is left as it was in every build: no kernel
  object is constructed, nothing is bound and nothing is enqueued. The call returns
  success at once in a buffer or virtual-pointer build and in a USM build without
  assertions; in a USM build with assertions it stops at the assertion.
\<close>

theorem zero_range_untouched:
  assumes "is_zero rng"
  shows "snd (parallel_for b this stream rng arg_list) = stream
    \<and> (MKLDNN_SYCL_MEMORY_API b \<noteq> MKLDNN_SYCL_MEMORY_API_USM \<or> NDEBUG b \<longrightarrow>
         parallel_for b this stream rng arg_list = (Inr success, stream))
    \<and> (MKLDNN_SYCL_MEMORY_API b = MKLDNN_SYCL_MEMORY_API_USM \<and> \<not> NDEBUG b \<longrightarrow>
         parallel_for b this stream rng arg_list = (Inl (Assertion_failed ''not implemented''), stream))"
  using assms by (simp add: parallel_for_def assert_that_def)

theorem zero_range_untouched_witness:
  "is_zero zero_range
   \<and> parallel_for buffer_build scenario_kernel scenario_stream zero_range scenario_args
       = (Inr success, scenario_stream)
   \<and> parallel_for usm_debug_build scenario_kernel scenario_stream zero_range scenario_args
       = (Inl (Assertion_failed ''not implemented''), scenario_stream)"
proof -
  have z: "is_zero zero_range" by (simp add: is_zero_def zero_range_def)
  show ?thesis
    using z zero_range_untouched [OF z, of buffer_build scenario_kernel scenario_stream scenario_args]
      zero_range_untouched [OF z, of usm_debug_build scenario_kernel scenario_stream scenario_args]
    by (simp add: buffer_build_def usm_debug_build_def)
qed

section \<open>The unsupported memory API\<close>

text \<open>
  C5, as stated, fails where assertions are compiled out: the two assertions are all
  that rejects a USM build, and with \<^verbatim>\<open>NDEBUG\<close> the dispatch goes on and returns
  success.
\<close>

theorem usm_dispatch_counterexample:
  "MKLDNN_SYCL_MEMORY_API usm_release_build = MKLDNN_SYCL_MEMORY_API_USM
   \<and> \<not> is_zero flat_range
   \<and> fst (parallel_for usm_release_build scenario_kernel scenario_stream flat_range scenario_args)
       = Inr success
   \<and> fst (parallel_for usm_release_build scenario_kernel scenario_stream zero_range scenario_args)
       = Inr success"
  by (simp add: scenario_usm_release_run)
     (simp add: parallel_for_def assert_that_def is_zero_def zero_range_def flat_range_def
        usm_release_build_def)

text \<open>
  C5, amended. In a USM build with assertions enabled every dispatch stops at the
  assertion \<^verbatim>\<open>not implemented\<close> on entry, whatever the range and the arguments, with
  the stream untouched; the failure is never a status or an exception.
\<close>

theorem usm_dispatch_asserts:
  assumes "MKLDNN_SYCL_MEMORY_API b = MKLDNN_SYCL_MEMORY_API_USM" and "\<not> NDEBUG b"
  shows "parallel_for b this stream rng arg_list = (Inl (Assertion_failed ''not implemented''), stream)"
  using assms by (simp add: parallel_for_def assert_that_def)

theorem usm_dispatch_asserts_witness:
  "MKLDNN_SYCL_MEMORY_API usm_debug_build = MKLDNN_SYCL_MEMORY_API_USM \<and> \<not> NDEBUG usm_debug_build
   \<and> parallel_for usm_debug_build scenario_kernel scenario_stream flat_range scenario_args
       = (Inl (Assertion_failed ''not implemented''), scenario_stream)"
proof -
  have a: "MKLDNN_SYCL_MEMORY_API usm_debug_build = MKLDNN_SYCL_MEMORY_API_USM"
    and d: "\<not> NDEBUG usm_debug_build"
    by (simp_all add: usm_debug_build_def)
  show ?thesis
    using a d usm_dispatch_asserts [OF a d, of scenario_kernel scenario_stream flat_range scenario_args]
    by simp
qed

section \<open>Releasing the native kernel\<close>

lemma count_list_snoc: "count_list (xs @ [x]) y = count_list xs y + (if x = y then 1 else 0)"
  by (induction xs) auto

lemma destroy_sycl_ocl_gpu_kernel_count:
  "count_list (destroy_sycl_ocl_gpu_kernel this rt) k =
     count_list rt k + (if ocl_kernel this = Some k then 1 else 0)"
  by (simp add: destroy_sycl_ocl_gpu_kernel_def clReleaseKernel_def count_list_snoc
      split: option.splits)

text \<open>
  C8, as stated, fails in its second clause: the null check does not make a second
  release impossible. The destructor does not clear the handle it releases, so the check
  passes again on the same wrapper, and two runs release the handle twice.
\<close>

theorem destructor_counterexample:
  "ocl_kernel \<lparr>ocl_kernel = Some 5\<rparr> \<noteq> None
   \<and> destroy_sycl_ocl_gpu_kernel \<lparr>ocl_kernel = Some 5\<rparr>
        (destroy_sycl_ocl_gpu_kernel \<lparr>ocl_kernel = Some 5\<rparr> []) = [5, 5]"
  by (simp add: destroy_sycl_ocl_gpu_kernel_def clReleaseKernel_def)

text \<open>
  C8, amended. Every run of the destructor calls \<^verbatim>\<open>clReleaseKernel\<close> exactly once, on
  the stored handle, when the handle is not null, and makes no call when it is null; so
  after \<open>n\<close> runs on a wrapper the stored handle has been released \<open>n\<close> times more
  and every other handle no more than before. The native kernel is released exactly
  once because a wrapper is destroyed once, not because of the null check.
\<close>

theorem destructor_releases_per_run:
  "destroy_sycl_ocl_gpu_kernel this rt =
     rt @ (case ocl_kernel this of None \<Rightarrow> [] | Some k \<Rightarrow> [k])
   \<and> count_list ((destroy_sycl_ocl_gpu_kernel this ^^ n) rt) k =
       count_list rt k + (if ocl_kernel this = Some k then n else 0)"
proof
  show "destroy_sycl_ocl_gpu_kernel this rt =
      rt @ (case ocl_kernel this of None \<Rightarrow> [] | Some k \<Rightarrow> [k])"
    by (simp add: destroy_sycl_ocl_gpu_kernel_def clReleaseKernel_def split: option.splits)
next
  show "count_list ((destroy_sycl_ocl_gpu_kernel this ^^ n) rt) k =
      count_list rt k + (if ocl_kernel this = Some k then n else 0)"
  proof (induction n)
    case 0
    then show ?case by simp
  next
    case (Suc n)
    then show ?case by (simp add: destroy_sycl_ocl_gpu_kernel_count)
  qed
qed

theorem destructor_releases_per_run_witness:
  "destroy_sycl_ocl_gpu_kernel \<lparr>ocl_kernel = Some 5\<rparr> [] = [5]
   \<and> destroy_sycl_ocl_gpu_kernel \<lparr>ocl_kernel = None\<rparr> [] = []
   \<and> count_list ((destroy_sycl_ocl_gpu_kernel \<lparr>ocl_kernel = Some 5\<rparr> ^^ 1) [5, 6]) 5 = 2
   \<and> count_list ((destroy_sycl_ocl_gpu_kernel \<lparr>ocl_kernel = Some 5\<rparr> ^^ 1) [5, 6]) 6 = 1"
  using destructor_releases_per_run [of "\<lparr>ocl_kernel = Some 5\<rparr>" "[]" 1 5]
    destructor_releases_per_run [of "\<lparr>ocl_kernel = None\<rparr>" "[]" 1 5]
    destructor_releases_per_run [of "\<lparr>ocl_kernel = Some 5\<rparr>" "[5, 6]" 1 5]
    destructor_releases_per_run [of "\<lparr>ocl_kernel = Some 5\<rparr>" "[5, 6]" 1 6]
  by simp

section \<open>The base offset of a storage\<close>

lemmas storage_defs = deref_def new_buffer_u8_def shared_ptr_release_def shared_ptr_reset_def

lemma create_memory_buffer_run:
  "create_memory_buffer caller_heap 4 16 (Some 0)
     = Some ([Some \<lparr>mem_object = 21, use_count = 0\<rparr>, None, Some \<lparr>mem_object = 21, use_count = 1\<rparr>],
             Buffer_storage \<lparr>buffer_ptr = Some 2, offset = 64\<rparr>)"
  by (simp add: create_memory_buffer_def caller_heap_def storage_defs)

text \<open>
  C3, as stated, fails for buffer-backed storage: \<^verbatim>\<open>base_offset()\<close> of
  \<^verbatim>\<open>sycl_buffer_memory_storage_t\<close> returns the constant 0. A memory created by
  \<^verbatim>\<open>create_memory_t<buffer>::call<float>\<close> at element offset 16, that is byte offset 64,
  keeps 64 as the offset written by \<^verbatim>\<open>set_offset\<close> and still has base offset 0.
\<close>

theorem base_offset_counterexample:
  "create_memory_buffer caller_heap 4 16 (Some 0)
     = Some ([Some \<lparr>mem_object = 21, use_count = 0\<rparr>, None, Some \<lparr>mem_object = 21, use_count = 1\<rparr>],
             Buffer_storage \<lparr>buffer_ptr = Some 2, offset = 64\<rparr>)
   \<and> memory_api_kind (Buffer_storage \<lparr>buffer_ptr = Some 2, offset = 64\<rparr>) = kind_buffer
   \<and> base_offset (Buffer_storage \<lparr>buffer_ptr = Some 2, offset = 64\<rparr>) \<noteq> 16 * 4"
  using create_memory_buffer_run by simp

text \<open>
  C3, amended. \<^verbatim>\<open>base_offset()\<close> returns 0 for every storage, pointer-backed or
  buffer-backed. The byte offset given when a buffer-backed memory is created is kept
  apart from it, as the offset written by \<^verbatim>\<open>set_offset\<close>: the element offset times
  \<^verbatim>\<open>sizeof(T)\<close>.
\<close>

theorem base_offset_zero:
  "base_offset s = 0
   \<and> (create_memory_buffer h sizeof_T off handle = Some (h', s') \<longrightarrow>
        memory_api_kind s' = kind_buffer \<and> get_offset s' = off * sizeof_T \<and> base_offset s' = 0)"
  by (cases s)
     (auto simp: create_memory_buffer_def storage_defs Let_def split: option.splits prod.splits)

theorem base_offset_zero_witness:
  "create_memory_buffer caller_heap 4 16 (Some 0)
     = Some ([Some \<lparr>mem_object = 21, use_count = 0\<rparr>, None, Some \<lparr>mem_object = 21, use_count = 1\<rparr>],
             Buffer_storage \<lparr>buffer_ptr = Some 2, offset = 64\<rparr>)
   \<and> memory_api_kind (Buffer_storage \<lparr>buffer_ptr = Some 2, offset = 64\<rparr>) = kind_buffer
   \<and> get_offset (Buffer_storage \<lparr>buffer_ptr = Some 2, offset = 64\<rparr>) = 16 * 4
   \<and> base_offset (Buffer_storage \<lparr>buffer_ptr = Some 2, offset = 64\<rparr>) = 0
   \<and> base_offset (Usm_storage \<lparr>usm_ptr = Some 7, usm_offset = 4096\<rparr>) = 0"
  using create_memory_buffer_run
    base_offset_zero [of "Usm_storage \<lparr>usm_ptr = Some 7, usm_offset = 4096\<rparr>" caller_heap 4 16
      "Some 0"
      "[Some \<lparr>mem_object = 21, use_count = 0\<rparr>, None, Some \<lparr>mem_object = 21, use_count = 1\<rparr>]"
      "Buffer_storage \<lparr>buffer_ptr = Some 2, offset = 64\<rparr>"]
  by simp

section \<open>Setting and getting the data handle\<close>

text \<open>
  C9, as stated, fails for a buffer-backed storage and the null handle, the handle
  \<^verbatim>\<open>get_data_handle\<close> itself gives for an empty storage: \<^verbatim>\<open>set_data_handle\<close>
  dereferences the handle it is given, so the call has no defined result and no handle to
  get afterwards.
\<close>

theorem set_data_handle_counterexample:
  "get_data_handle (Buffer_storage \<lparr>buffer_ptr = None, offset = 0\<rparr>) = (success, None)
   \<and> valid_storage caller_heap (Buffer_storage \<lparr>buffer_ptr = None, offset = 0\<rparr>)
   \<and> set_data_handle caller_heap (Buffer_storage \<lparr>buffer_ptr = None, offset = 0\<rparr>) None = None"
  by (simp add: deref_def)

text \<open>
  C9, amended. On a storage whose shared pointer is empty or owns a live object, and for
  a handle that, when the storage is buffer-backed, points at a live \<^verbatim>\<open>buffer_u8_t\<close>,
  setting the data handle succeeds and getting it afterwards gives a handle on the same
  data: for a
  pointer-backed storage the very pointer that was set; for a buffer-backed storage the
  address of a new \<^verbatim>\<open>buffer_u8_t\<close>, not live before and different from the handle
  given, which refers to the memory object of the buffer the handle points at and has
  the storage's shared pointer as its one owner. The buffer of the caller stays as it
  was unless it was the object the storage owned before.
\<close>

theorem set_then_get_data_handle:
  assumes "valid_storage h s" and "valid_handle h s handle"
  shows "\<exists>h' s' p. set_data_handle h s handle = Some (success, h', s')
      \<and> get_data_handle s' = (success, p)
      \<and> memory_api_kind s' = memory_api_kind s
      \<and> valid_storage h' s'
      \<and> (memory_api_kind s = kind_usm \<longrightarrow> p = handle \<and> h' = h)
      \<and> (memory_api_kind s = kind_buffer \<longrightarrow>
            p \<noteq> handle \<and> deref h p = None
            \<and> (\<exists>src new. deref h handle = Some src \<and> deref h' p = Some new
                  \<and> mem_object new = mem_object src \<and> use_count new = 1)
            \<and> (handle \<noteq> snd (get_data_handle s) \<longrightarrow> deref h' handle = deref h handle))"
proof (cases s)
  case (Usm_storage this)
  then show ?thesis by simp
next
  case (Buffer_storage this)
  from assms(2) Buffer_storage obtain a src where a: "handle = Some a" "a < length h" "h ! a = Some src"
    by (auto simp: deref_def split: option.splits if_splits)
  show ?thesis
  proof (cases "buffer_ptr this")
    case None
    with Buffer_storage a show ?thesis
      by (simp add: storage_defs nth_append)
  next
    case (Some old)
    with assms(1) Buffer_storage obtain oldobj where old: "old < length h" "h ! old = Some oldobj"
      by (auto simp: deref_def split: if_splits)
    with Some Buffer_storage a show ?thesis
      by (auto simp: storage_defs nth_append nth_list_update)
  qed
qed


theorem set_then_get_data_handle_witness:
  "valid_storage caller_heap (Buffer_storage \<lparr>buffer_ptr = None, offset = 0\<rparr>)
   \<and> valid_handle caller_heap (Buffer_storage \<lparr>buffer_ptr = None, offset = 0\<rparr>) (Some 0)
   \<and> (\<exists>h' s' p.
         set_data_handle caller_heap (Buffer_storage \<lparr>buffer_ptr = None, offset = 0\<rparr>) (Some 0)
           = Some (success, h', s')
         \<and> get_data_handle s' = (success, p)
         \<and> p \<noteq> Some 0
         \<and> (\<exists>src new. deref caller_heap (Some 0) = Some src \<and> deref h' p = Some new
               \<and> mem_object new = mem_object src \<and> use_count new = 1))
   \<and> (\<exists>h' s'.
         set_data_handle caller_heap (Usm_storage \<lparr>usm_ptr = None, usm_offset = 0\<rparr>) (Some 7)
           = Some (success, h', s')
         \<and> get_data_handle s' = (success, Some 7))"
proof -
  let ?b = "Buffer_storage \<lparr>buffer_ptr = None, offset = 0\<rparr>"
  let ?u = "Usm_storage \<lparr>usm_ptr = None, usm_offset = 0\<rparr>"
  have vb: "valid_storage caller_heap ?b" and hb: "valid_handle caller_heap ?b (Some 0)"
    by (simp_all add: caller_heap_def deref_def)
  have vu: "valid_storage caller_heap ?u" and hu: "valid_handle caller_heap ?u (Some 7)"
    by simp_all
  have kb: "memory_api_kind ?b = kind_buffer" and ku: "memory_api_kind ?u = kind_usm"
    by simp_all
  from set_then_get_data_handle [OF vb hb]
  have "\<exists>h' s' p.
         set_data_handle caller_heap ?b (Some 0) = Some (success, h', s')
         \<and> get_data_handle s' = (success, p)
         \<and> p \<noteq> Some 0
         \<and> (\<exists>src new. deref caller_heap (Some 0) = Some src \<and> deref h' p = Some new
               \<and> mem_object new = mem_object src \<and> use_count new = 1)"
    unfolding kb by blast
  moreover from set_then_get_data_handle [OF vu hu]
  have "\<exists>h' s'. set_data_handle caller_heap ?u (Some 7) = Some (success, h', s')
         \<and> get_data_handle s' = (success, Some 7)"
    unfolding ku by blast
  ultimately show ?thesis using vb hb by blast
qed

end
